theory Spec2Isabelle
  imports Complex_Main "HOL-Library.Log_Nat"
begin

section \<open>The browser's query-string parser\<close>

text \<open>
  \<^verbatim>\<open>hasCodeInUrl\<close> builds two \<^verbatim>\<open>URLSearchParams\<close> objects and reads them with
  \<^verbatim>\<open>get\<close>. \<^verbatim>\<open>URLSearchParams\<close> is the browser's, not the repository's; it is
  written out here after the URL standard (the application/x-www-form-urlencoded parser).
  A string is the list of the bytes of its UTF-8 encoding, which is what that parser
  works on. The parser's last step decodes names and values as UTF-8; the step is left
  out, since it maps no non-empty byte sequence to the empty string and maps only the
  ASCII bytes of a name such as \<^verbatim>\<open>code\<close> to that name.
\<close>

text \<open>Strictly splitting a byte sequence on a separator byte (empty pieces are kept).\<close>

fun split_on :: "char \<Rightarrow> string \<Rightarrow> string list" where
  "split_on c [] = [[]]"
| "split_on c (x # xs) =
     (if x = c then [] # split_on c xs
      else (case split_on c xs of
              [] \<Rightarrow> [[x]]
            | y # ys \<Rightarrow> (x # y) # ys))"

definition hex_digit :: "char \<Rightarrow> nat option" where
  "hex_digit c =
     (let n = (of_char c :: nat) in
      if 48 \<le> n \<and> n \<le> 57 then Some (n - 48)
      else if 65 \<le> n \<and> n \<le> 70 then Some (n - 55)
      else if 97 \<le> n \<and> n \<le> 102 then Some (n - 87)
      else None)"

text \<open>Percent-decoding: \<^verbatim>\<open>%\<close> followed by two hexadecimal digits is one byte.\<close>

fun percent_decode :: "string \<Rightarrow> string" where
  "percent_decode [] = []"
| "percent_decode [x] = [x]"
| "percent_decode [x, y] = [x, y]"
| "percent_decode (p # a # b # rest) =
     (if p = CHR ''%'' then
        (case (hex_digit a, hex_digit b) of
           (Some h, Some l) \<Rightarrow> char_of (16 * h + l) # percent_decode rest
         | _ \<Rightarrow> p # percent_decode (a # b # rest))
      else p # percent_decode (a # b # rest))"

definition plus_to_space :: "string \<Rightarrow> string" where
  "plus_to_space s = map (\<lambda>c. if c = CHR ''+'' then CHR '' '' else c) s"

text \<open>
  One piece between two \<^verbatim>\<open>&\<close>: the name is what stands before the first \<^verbatim>\<open>=\<close>,
  the value what stands after it (empty when there is no \<^verbatim>\<open>=\<close>).
\<close>

definition parse_pair :: "string \<Rightarrow> string \<times> string" where
  "parse_pair bytes =
     (let name = takeWhile (\<lambda>c. c \<noteq> CHR ''='') bytes;
          val = drop 1 (dropWhile (\<lambda>c. c \<noteq> CHR ''='') bytes)
      in (percent_decode (plus_to_space name), percent_decode (plus_to_space val)))"

definition parse_urlencoded :: "string \<Rightarrow> (string \<times> string) list" where
  "parse_urlencoded input =
     map parse_pair (filter (\<lambda>bytes. bytes \<noteq> []) (split_on CHR ''&'' input))"

text \<open>\<^verbatim>\<open>new URLSearchParams(init)\<close> for a string: one leading \<^verbatim>\<open>?\<close> is dropped.\<close>

definition URLSearchParams :: "string \<Rightarrow> (string \<times> string) list" where
  "URLSearchParams init =
     parse_urlencoded (case init of
                         [] \<Rightarrow> []
                       | c # cs \<Rightarrow> if c = CHR ''?'' then cs else c # cs)"

text \<open>
  \<^verbatim>\<open>params.get(name)\<close>: the value of the first pair with that name, \<^verbatim>\<open>null\<close>
  (\<open>None\<close>) when there is none.
\<close>

fun get :: "(string \<times> string) list \<Rightarrow> string \<Rightarrow> string option" where
  "get [] key = None"
| "get ((n, v) # ps) key = (if n = key then Some v else get ps key)"

text \<open>
  \<^verbatim>\<open>s.replace(pat, rep)\<close> with a one-character string pattern: only the first
  occurrence is replaced.
\<close>

fun replace_first :: "char \<Rightarrow> char \<Rightarrow> string \<Rightarrow> string" where
  "replace_first pat rep [] = []"
| "replace_first pat rep (x # xs) =
     (if x = pat then rep # xs else x # replace_first pat rep xs)"

text \<open>
  The operands of \<^verbatim>\<open>||\<close> and the argument of \<^verbatim>\<open>Boolean\<close> are strings or
  \<^verbatim>\<open>null\<close>: \<^verbatim>\<open>null\<close> and the empty string are falsy, every other string is truthy.
\<close>

definition truthy :: "string option \<Rightarrow> bool" where
  "truthy x = (case x of None \<Rightarrow> False | Some s \<Rightarrow> s \<noteq> [])"

section \<open>hasCodeInUrl\<close>

record location =
  search :: string
  hash :: string

definition hasCodeInUrl :: "location \<Rightarrow> bool" where
  "hasCodeInUrl loc =
     (let searchParams = URLSearchParams (search loc);
          hashParams = URLSearchParams (replace_first CHR ''#'' CHR ''?'' (hash loc))
      in truthy (get searchParams ''code'') \<or>
         truthy (get searchParams ''id_token'') \<or>
         truthy (get searchParams ''session_state'') \<or>
         truthy (get hashParams ''code'') \<or>
         truthy (get hashParams ''id_token'') \<or>
         truthy (get hashParams ''session_state''))"

section \<open>The external OIDC client library\<close>

text \<open>
  A thrown JavaScript value, or the reason a promise is rejected with. A call that can
  throw or reject returns a sum: \<open>Inl\<close> the error, \<open>Inr\<close> the result.
\<close>

type_synonym js_error = string

record profile =
  name :: "string option"
  picture :: "string option"
  email :: "string option"

text \<open>
  The library's \<^verbatim>\<open>User\<close>. The shim reads \<^verbatim>\<open>expired\<close> and three fields of the
  profile; the other fields stand for the session's tokens.
\<close>

record user =
  expired :: bool
  profile :: profile
  id_token :: string
  access_token :: string
  expires_at :: int

text \<open>
  The closure \<^verbatim>\<open>updateUserData\<close> that the \<open>n\<close>-th run of the subscription
  effect creates. JavaScript compares functions by reference, so each run has its own.
\<close>

datatype handler = UpdateUserData nat

text \<open>
  The library's \<^verbatim>\<open>UserManager\<close>, by what each method the shim calls does to the
  library's state \<open>'m\<close> (the session store included) and what its promise settles to.
  An argument of type \<^verbatim>\<open>unknown\<close> is \<open>'a option\<close>, \<open>None\<close> for
  \<^verbatim>\<open>undefined\<close> (an argument left out).
\<close>

record ('m, 'a) userManager =
  signinCallback :: "'m \<Rightarrow> (js_error + user) \<times> 'm"
  getUser :: "'m \<Rightarrow> (js_error + user option) \<times> 'm"
  signinRedirect :: "'a option \<Rightarrow> 'm \<Rightarrow> (js_error + unit) \<times> 'm"
  removeUser :: "'m \<Rightarrow> (js_error + unit) \<times> 'm"
  signoutRedirect :: "'a option \<Rightarrow> 'm \<Rightarrow> (js_error + unit) \<times> 'm"
  addUserLoaded :: "handler \<Rightarrow> 'm \<Rightarrow> 'm"
  removeUserLoaded :: "handler \<Rightarrow> 'm \<Rightarrow> 'm"

record userManagerSettings =
  authority' :: "string option"
  client_id :: "string option"
  client_secret :: "string option"
  redirect_uri :: "string option"
  silent_redirect_uri :: "string option"
  post_logout_redirect_uri :: "string option"
  response_type :: string
  scope' :: string
  loadUserInfo :: bool
  automaticSilentRenew' :: "bool option"

section \<open>The provider's props and state\<close>

text \<open>
  The props are the fields the provider's code reads (their declaration,
  \<^verbatim>\<open>AuthContextInterface\<close>, is not among the sources); every one is optional. A
  callback is what calling it does as far as the shim can tell: it returns
  (\<open>Inr ()\<close>) or throws (\<open>Inl e\<close>). A promise that a callback returns is not
  awaited by the shim and so is not modelled.
\<close>

record ('m, 'a) authProviderProps =
  userManager :: "('m, 'a) userManager option"
  authority :: "string option"
  clientId :: "string option"
  clientSecret :: "string option"
  redirectUri :: "string option"
  responseType :: "string option"
  scope :: "string option"
  automaticSilentRenew :: "bool option"
  autoSignIn :: "bool option"
  onBeforeSignIn :: "(js_error + unit) option"
  onSignIn :: "(user \<Rightarrow> js_error + unit) option"
  onSignOut :: "(js_error + unit) option"
  location :: "location option"

text \<open>
  What the shim does to the outside, in the order it does it: the library methods it
  calls, the callbacks it invokes and the state updates it makes.
\<close>

datatype 'a event =
    SigninCallback
  | GetUser
  | SigninRedirect "'a option"
  | RemoveUser
  | SignoutRedirect "'a option"
  | AddUserLoaded handler
  | RemoveUserLoaded handler
  | OnBeforeSignIn
  | OnSignIn user
  | OnSignOut
  | SetUserData "user option"

text \<open>
  The state the provider's code runs in: the library's state, the React state
  \<^verbatim>\<open>userData\<close> and the events so far. \<^verbatim>\<open>setUserData\<close> takes effect at once,
  and an asynchronous function runs to its end, or to the first rejection or throw, in
  one step: what other code does between two of its \<^verbatim>\<open>await\<close>s is not modelled.
\<close>

record ('m, 'a) world =
  lib :: 'm
  userData :: "user option"
  trace :: "'a event list"

definition emit :: "'a event \<Rightarrow> ('m, 'a) world \<Rightarrow> ('m, 'a) world" where
  "emit ev w = w\<lparr>trace := trace w @ [ev]\<rparr>"

text \<open>Calling a library method and awaiting its promise.\<close>

definition call :: "'a event \<Rightarrow> ('m \<Rightarrow> 'r \<times> 'm) \<Rightarrow> ('m, 'a) world \<Rightarrow> 'r \<times> ('m, 'a) world" where
  "call ev f w = (case f (lib w) of (r, m) \<Rightarrow> (r, emit ev (w\<lparr>lib := m\<rparr>)))"

definition setUserData :: "user option \<Rightarrow> ('m, 'a) world \<Rightarrow> ('m, 'a) world" where
  "setUserData u w = emit (SetUserData u) (w\<lparr>userData := u\<rparr>)"

text \<open>The events a run added: those of the world after it that the world before did not have.\<close>

definition events_since :: "('m, 'a) world \<Rightarrow> ('m, 'a) world \<Rightarrow> 'a event list" where
  "events_since w w' = drop (length (trace w)) (trace w')"

section \<open>initUserManager\<close>

text \<open>\<^verbatim>\<open>x || d\<close> for a string or \<^verbatim>\<open>undefined\<close> \<open>x\<close>.\<close>

definition or_default :: "string option \<Rightarrow> string \<Rightarrow> string" where
  "or_default x d = (case x of None \<Rightarrow> d | Some s \<Rightarrow> if s = [] then d else s)"

text \<open>The library's constructor \<^verbatim>\<open>new UserManager(settings)\<close> is a parameter.\<close>

definition initUserManager ::
  "(userManagerSettings \<Rightarrow> ('m, 'a) userManager) \<Rightarrow> ('m, 'a) authProviderProps \<Rightarrow> ('m, 'a) userManager" where
  "initUserManager new_UserManager props =
     (case userManager props of
        Some um \<Rightarrow> um
      | None \<Rightarrow>
          new_UserManager
            \<lparr>authority' = authority props,
             client_id = clientId props,
             client_secret = clientSecret props,
             redirect_uri = redirectUri props,
             silent_redirect_uri = redirectUri props,
             post_logout_redirect_uri = redirectUri props,
             response_type = or_default (responseType props) ''code'',
             scope' = or_default (scope props) ''openid'',
             loadUserInfo = True,
             automaticSilentRenew' = automaticSilentRenew props\<rparr>)"

section \<open>The provider's effects and actions\<close>

definition signOutHooks :: "('m, 'a) authProviderProps \<Rightarrow> ('m, 'a) world \<Rightarrow> (js_error + unit) \<times> ('m, 'a) world" where
  "signOutHooks props w =
     (let w1 = setUserData None w in
      case onSignOut props of
        None \<Rightarrow> (Inr (), w1)
      | Some cb \<Rightarrow> (cb, emit OnSignOut w1))"

text \<open>
  The page-load effect's \<^verbatim>\<open>getUser\<close>. \<^verbatim>\<open>autoSignIn\<close> is true when the prop is
  left out. The promise of \<^verbatim>\<open>signinRedirect()\<close> is not awaited: the call is made
  and what it settles to is dropped.
\<close>

definition getUser_effect ::
  "('m, 'a) authProviderProps \<Rightarrow> ('m, 'a) userManager \<Rightarrow> location \<Rightarrow> ('m, 'a) world
     \<Rightarrow> (js_error + unit) \<times> ('m, 'a) world" where
  "getUser_effect props um loc w =
     (if hasCodeInUrl loc then
        (case call SigninCallback (signinCallback um) w of
           (Inl e, w1) \<Rightarrow> (Inl e, w1)
         | (Inr user, w1) \<Rightarrow>
             (let w2 = setUserData (Some user) w1 in
              case onSignIn props of
                None \<Rightarrow> (Inr (), w2)
              | Some cb \<Rightarrow> (cb user, emit (OnSignIn user) w2)))
      else
        (case call GetUser (getUser um) w of
           (Inl e, w1) \<Rightarrow> (Inl e, w1)
         | (Inr user, w1) \<Rightarrow>
             if (case user of None \<Rightarrow> True | Some u \<Rightarrow> expired u) \<and>
                (case autoSignIn props of None \<Rightarrow> True | Some b \<Rightarrow> b)
             then
               (case (case onBeforeSignIn props of
                        None \<Rightarrow> (Inr (), w1)
                      | Some cb \<Rightarrow> (cb, emit OnBeforeSignIn w1)) of
                  (Inl e, w2) \<Rightarrow> (Inl e, w2)
                | (Inr _, w2) \<Rightarrow>
                    (Inr (), snd (call (SigninRedirect None) (signinRedirect um None) w2)))
             else (Inr (), setUserData user w1)))"

text \<open>
  The effect as the provider runs it: on the manager of \<^verbatim>\<open>initUserManager\<close>, at the
  \<^verbatim>\<open>location\<close> prop or, when it is left out, at \<^verbatim>\<open>window.location\<close>.
\<close>

definition AuthProvider_getUser ::
  "location \<Rightarrow> (userManagerSettings \<Rightarrow> ('m, 'a) userManager) \<Rightarrow> ('m, 'a) authProviderProps
     \<Rightarrow> ('m, 'a) world \<Rightarrow> (js_error + unit) \<times> ('m, 'a) world" where
  "AuthProvider_getUser window_location new_UserManager props w =
     getUser_effect props (initUserManager new_UserManager props)
       (case location props of None \<Rightarrow> window_location | Some l \<Rightarrow> l) w"

definition updateUserData :: "('m, 'a) userManager \<Rightarrow> ('m, 'a) world \<Rightarrow> (js_error + unit) \<times> ('m, 'a) world" where
  "updateUserData um w =
     (case call GetUser (getUser um) w of
        (Inl e, w1) \<Rightarrow> (Inl e, w1)
      | (Inr user, w1) \<Rightarrow> (Inr (), setUserData user w1))"

text \<open>
  The subscription effect: what mounting does, and the cleanup it returns, which React
  runs on unmount.
\<close>

definition userLoaded_effect ::
  "nat \<Rightarrow> ('m, 'a) userManager \<Rightarrow> ('m, 'a) world
     \<Rightarrow> ('m, 'a) world \<times> (('m, 'a) world \<Rightarrow> ('m, 'a) world)" where
  "userLoaded_effect n um w =
     (let h = UpdateUserData n in
      (emit (AddUserLoaded h) (w\<lparr>lib := addUserLoaded um h (lib w)\<rparr>),
       \<lambda>w'. emit (RemoveUserLoaded h) (w'\<lparr>lib := removeUserLoaded um h (lib w')\<rparr>)))"

text \<open>What the library runs when it fires \<^verbatim>\<open>userLoaded\<close> on a registered handler.\<close>

fun run_handler :: "('m, 'a) userManager \<Rightarrow> handler \<Rightarrow> ('m, 'a) world \<Rightarrow> (js_error + unit) \<times> ('m, 'a) world" where
  "run_handler um (UpdateUserData n) w = updateUserData um w"

definition login :: "('m, 'a) userManager \<Rightarrow> 'a option \<Rightarrow> ('m, 'a) world \<Rightarrow> (js_error + unit) \<times> ('m, 'a) world" where
  "login um args w = call (SigninRedirect args) (signinRedirect um args) w"

definition logout :: "('m, 'a) authProviderProps \<Rightarrow> ('m, 'a) userManager \<Rightarrow> ('m, 'a) world \<Rightarrow> (js_error + unit) \<times> ('m, 'a) world" where
  "logout props um w =
     (case call RemoveUser (removeUser um) w of
        (Inl e, w1) \<Rightarrow> (Inl e, w1)
      | (Inr _, w1) \<Rightarrow> signOutHooks props w1)"

definition signOutRedirect ::
  "('m, 'a) authProviderProps \<Rightarrow> ('m, 'a) userManager \<Rightarrow> 'a option \<Rightarrow> ('m, 'a) world
     \<Rightarrow> (js_error + unit) \<times> ('m, 'a) world" where
  "signOutRedirect props um args w =
     (case call (SignoutRedirect args) (signoutRedirect um args) w of
        (Inl e, w1) \<Rightarrow> (Inl e, w1)
      | (Inr _, w1) \<Rightarrow> signOutHooks props w1)"

section \<open>The context value\<close>

text \<open>
  A JavaScript number is an IEEE 754 binary64 value: a rational that the format holds,
  an infinity or \<^verbatim>\<open>NaN\<close>. The sign of a zero is dropped, since \<^verbatim>\<open><\<close> does not see it.
\<close>

datatype double = Finite rat | PosInf | NegInf | NaN

text \<open>For \<open>0 < a\<close>, the integer \<open>e\<close> with \<open>2 powi e \<le> a < 2 powi (e + 1)\<close>.\<close>

definition floor_log2 :: "rat \<Rightarrow> int" where
  "floor_log2 a = (if 1 \<le> a then bitlen \<lfloor>a\<rfloor> - 1 else - bitlen (\<lceil>1 / a\<rceil> - 1))"

definition round_half_even :: "rat \<Rightarrow> int" where
  "round_half_even z =
     (let f = \<lfloor>z\<rfloor>; d = z - of_int f
      in if d < 1 / 2 then f else if 1 / 2 < d then f + 1 else if even f then f else f + 1)"

text \<open>
  The number value of a rational: the nearest binary64 value, ties to the even
  significand. The significand has 53 bits, the least exponent is \<open>-1022\<close> (below it the
  values are evenly spaced), and what rounds to \<open>2 powi 1024\<close> or more is an infinity.
  This is what the language does to the exact result of an arithmetic operation and to
  the value of a number literal.
\<close>

definition round_binary64 :: "rat \<Rightarrow> double" where
  "round_binary64 x =
     (if x = 0 then Finite 0
      else
        (let a = \<bar>x\<bar>;
             e = max (floor_log2 a) (- 1022);
             q = 2 powi (e - 52);
             r = of_int (round_half_even (a / q)) * q
         in if 2 powi 1024 \<le> r then (if 0 < x then PosInf else NegInf)
            else Finite (if 0 < x then r else - r)))"

text \<open>\<^verbatim>\<open>x < y\<close> on numbers: \<^verbatim>\<open>NaN\<close> is less than nothing and nothing is less than it.\<close>

fun double_less :: "double \<Rightarrow> double \<Rightarrow> bool" where
  "double_less NaN y = False"
| "double_less x NaN = False"
| "double_less PosInf y = False"
| "double_less NegInf NegInf = False"
| "double_less NegInf y = True"
| "double_less (Finite x) (Finite y) = (x < y)"
| "double_less (Finite x) PosInf = True"
| "double_less (Finite x) NegInf = False"

text \<open>
  The browser around \<^verbatim>\<open>isAuthenticated\<close>: \<^verbatim>\<open>localStorage.getItem\<close>,
  \<^verbatim>\<open>JSON.parse\<close> (which throws on a string that is not JSON), the clock
  (\<^verbatim>\<open>new Date().getTime()\<close>, the time value: a whole number of milliseconds of
  magnitude at most 8640000000000000, which a double holds exactly) and the language's
  conversion of a string, an array or an object to a number (which can throw). A JSON
  value is the value its text denotes: \<open>JNum\<close> holds the rational that the number
  literal stands for, and becomes a double when it is used as a number.
\<close>

datatype json =
    JNull
  | JBool bool
  | JNum rat
  | JStr string
  | JArr "json list"
  | JObj "(string \<times> json) list"

record platform =
  getItem :: "string \<Rightarrow> string option"
  JSON_parse :: "string \<Rightarrow> js_error + json"
  getTime :: int
  ToNumber_other :: "json \<Rightarrow> js_error + double"

text \<open>
  \<^verbatim>\<open>j?.expires_at\<close> for a value \<open>j\<close> that \<^verbatim>\<open>JSON.parse\<close> returned, \<open>None\<close> for
  \<^verbatim>\<open>undefined\<close>: on \<^verbatim>\<open>null\<close> the \<^verbatim>\<open>?.\<close> gives \<^verbatim>\<open>undefined\<close>, a boolean, a
  number, a string or an array has no such property, and an object has it when one of
  its members is named so (the last one, when several are).
\<close>

fun expires_at_member :: "json \<Rightarrow> json option" where
  "expires_at_member (JObj members) = map_of (rev members) ''expires_at''"
| "expires_at_member _ = None"

text \<open>The conversion to a number of an operand of \<^verbatim>\<open><\<close>; \<^verbatim>\<open>undefined\<close> becomes \<^verbatim>\<open>NaN\<close>.\<close>

definition ToNumber :: "platform \<Rightarrow> json option \<Rightarrow> js_error + double" where
  "ToNumber pf v =
     (case v of
        None \<Rightarrow> Inr NaN
      | Some JNull \<Rightarrow> Inr (Finite 0)
      | Some (JBool b) \<Rightarrow> Inr (Finite (if b then 1 else 0))
      | Some (JNum x) \<Rightarrow> Inr (round_binary64 x)
      | Some j \<Rightarrow> ToNumber_other pf j)"

text \<open>\<^verbatim>\<open>v < y\<close> for a number \<open>y\<close>: \<open>v\<close> is converted to a number first.\<close>

definition js_less_than :: "platform \<Rightarrow> json option \<Rightarrow> double \<Rightarrow> js_error + bool" where
  "js_less_than pf v y =
     (case ToNumber pf v of
        Inl e \<Rightarrow> Inl e
      | Inr x \<Rightarrow> Inr (double_less x y))"

text \<open>A string or \<^verbatim>\<open>undefined\<close> inside a template literal.\<close>

definition template_text :: "string option \<Rightarrow> string" where
  "template_text x = (case x of None \<Rightarrow> ''undefined'' | Some s \<Rightarrow> s)"

definition storage_key :: "('m, 'a) authProviderProps \<Rightarrow> string" where
  "storage_key props =
     ''oidc.user:'' @ template_text (authority props) @ '':'' @ template_text (clientId props)"

text \<open>
  The \<^verbatim>\<open>isAuthenticated\<close> field. \<^verbatim>\<open>JSON.parse\<close> turns its argument into a string
  first, so a missing entry (\<^verbatim>\<open>null\<close>) is parsed as the text \<^verbatim>\<open>null\<close>. The
  right operand of \<^verbatim>\<open><\<close> is the double that the division of the time value by 1000
  gives.
\<close>

definition isAuthenticated :: "platform \<Rightarrow> ('m, 'a) authProviderProps \<Rightarrow> user option \<Rightarrow> js_error + bool" where
  "isAuthenticated pf props ud =
     (if (case ud of None \<Rightarrow> False | Some u \<Rightarrow> expired u) then Inr False
      else
        (case JSON_parse pf (case getItem pf (storage_key props) of
                               None \<Rightarrow> ''null''
                             | Some s \<Rightarrow> s) of
           Inl e \<Rightarrow> Inl e
         | Inr j \<Rightarrow>
             js_less_than pf (expires_at_member j)
               (round_binary64 (of_int (getTime pf) / 1000))))"

record user_summary =
  id' :: "string option"
  avatar :: "string option"
  email' :: "string option"
  name' :: "string option"

text \<open>
  The data of the context value; its three actions are \<open>login\<close>, \<open>logout\<close> and
  \<open>signOutRedirect\<close> above.
\<close>

record ('m, 'a) authContextProps =
  userManager' :: "('m, 'a) userManager"
  userData' :: "user option"
  user' :: user_summary
  isAuthenticated' :: bool
  method' :: string

text \<open>\<^verbatim>\<open>userData?.profile.f\<close> for a field \<open>f\<close> of the profile.\<close>

definition profile_field :: "(profile \<Rightarrow> string option) \<Rightarrow> user option \<Rightarrow> string option" where
  "profile_field f ud = (case ud of None \<Rightarrow> None | Some u \<Rightarrow> f (profile u))"

text \<open>What one render of the provider passes down; a render in which \<^verbatim>\<open>JSON.parse\<close> throws has no value.\<close>

definition contextValue ::
  "platform \<Rightarrow> (userManagerSettings \<Rightarrow> ('m, 'a) userManager) \<Rightarrow> ('m, 'a) authProviderProps \<Rightarrow> user option
     \<Rightarrow> js_error + ('m, 'a) authContextProps" where
  "contextValue pf new_UserManager props ud =
     (case isAuthenticated pf props ud of
        Inl e \<Rightarrow> Inl e
      | Inr b \<Rightarrow>
          Inr \<lparr>userManager' = initUserManager new_UserManager props,
               userData' = ud,
               user' = \<lparr>id' = profile_field name ud,
                        avatar = profile_field picture ud,
                        email' = profile_field email ud,
                        name' = profile_field name ud\<rparr>,
               isAuthenticated' = b,
               method' = ''OIDC''\<rparr>)"

section \<open>The wording of the specification\<close>

definition relevant_params :: "string list" where
  "relevant_params = [''code'', ''id_token'', ''session_state'']"

text \<open>A parameter "appears with a non-empty value": some pair of that name has one.\<close>

definition appears_nonempty :: "(string \<times> string) list \<Rightarrow> string \<Rightarrow> bool" where
  "appears_nonempty ps key = list_ex (\<lambda>p. fst p = key \<and> snd p \<noteq> []) ps"

definition spec_returning_from_redirect :: "location \<Rightarrow> bool" where
  "spec_returning_from_redirect loc =
     list_ex (\<lambda>key. appears_nonempty (URLSearchParams (search loc)) key \<or>
                    appears_nonempty (URLSearchParams (replace_first CHR ''#'' CHR ''?'' (hash loc))) key)
       relevant_params"

text \<open>The first pair of that name has a non-empty value.\<close>

definition first_nonempty :: "(string \<times> string) list \<Rightarrow> string \<Rightarrow> bool" where
  "first_nonempty ps key =
     (case dropWhile (\<lambda>p. fst p \<noteq> key) ps of
        [] \<Rightarrow> False
      | p # _ \<Rightarrow> snd p \<noteq> [])"

section \<open>Example inputs\<close>

definition example_user :: user where
  "example_user =
     \<lparr>expired = False,
      profile = \<lparr>name = Some ''Ada'', picture = None, email = Some ''ada@example.org''\<rparr>,
      id_token = ''header.payload.signature'',
      access_token = ''opaque'',
      expires_at = 1600000000\<rparr>"

text \<open>
  A library whose state is the stored session and the registered \<^verbatim>\<open>userLoaded\<close>
  handlers, and whose promises all resolve.
\<close>

definition example_um :: "(user option \<times> handler list, string) userManager" where
  "example_um =
     \<lparr>signinCallback = (\<lambda>m. (Inr example_user, (Some example_user, snd m))),
      getUser = (\<lambda>m. (Inr (fst m), m)),
      signinRedirect = (\<lambda>args m. (Inr (), m)),
      removeUser = (\<lambda>m. (Inr (), (None, snd m))),
      signoutRedirect = (\<lambda>args m. (Inr (), m)),
      addUserLoaded = (\<lambda>h m. (fst m, snd m @ [h])),
      removeUserLoaded = (\<lambda>h m. (fst m, remove1 h (snd m)))\<rparr>"

definition example_props :: "(user option \<times> handler list, string) authProviderProps" where
  "example_props =
     \<lparr>userManager = Some example_um,
      authority = Some ''https://idp.example'',
      clientId = Some ''app'',
      clientSecret = None,
      redirectUri = Some ''https://app.example/'',
      responseType = None,
      scope = None,
      automaticSilentRenew = None,
      autoSignIn = None,
      onBeforeSignIn = Some (Inr ()),
      onSignIn = Some (\<lambda>u. Inr ()),
      onSignOut = Some (Inr ()),
      location = None\<rparr>"

text \<open>The provider's state at the first page load, and with a session.\<close>

definition example_world :: "(user option \<times> handler list, string) world" where
  "example_world = \<lparr>lib = (None, []), userData = None, trace = []\<rparr>"

definition example_world_signed_in :: "(user option \<times> handler list, string) world" where
  "example_world_signed_in =
     \<lparr>lib = (Some example_user, []), userData = Some example_user, trace = []\<rparr>"

text \<open>The text \<^verbatim>\<open>{"expires_at":1600000000}\<close>, and a parser that knows it and \<^verbatim>\<open>null\<close>.\<close>

definition example_session_text :: string where
  "example_session_text =
     ''{'' @ [char_of (34 :: nat)] @ ''expires_at'' @ [char_of (34 :: nat)] @ '':1600000000}''"

definition example_JSON_parse :: "string \<Rightarrow> js_error + json" where
  "example_JSON_parse s =
     (if s = ''null'' then Inr JNull
      else if s = example_session_text then Inr (JObj [(''expires_at'', JNum 1600000000)])
      else Inl ''SyntaxError'')"

text \<open>A browser at the time 1700000000 s that holds the session above, expired since.\<close>

definition example_platform :: platform where
  "example_platform =
     \<lparr>getItem = (\<lambda>key. if key = ''oidc.user:https://idp.example:app''
                         then Some example_session_text else None),
      JSON_parse = example_JSON_parse,
      getTime = 1700000000000,
      ToNumber_other = (\<lambda>j. Inr NaN)\<rparr>"

section \<open>Lemmas on the rounding of numbers\<close>

lemma round_half_even_bounds:
  "of_int (round_half_even z) \<le> z + 1 / 2" "z - 1 / 2 \<le> of_int (round_half_even z)"
  unfolding round_half_even_def Let_def by (auto; linarith)+

lemma round_half_even_of_int: "round_half_even (of_int m) = m"
  by (simp add: round_half_even_def)

lemma round_half_even_le: "z \<le> of_int N \<Longrightarrow> round_half_even z \<le> N"
proof (cases "z = of_int N")
  case True
  then show ?thesis by (simp add: round_half_even_of_int)
next
  case False
  assume "z \<le> of_int N"
  with False have "z < of_int N" by simp
  then have "\<lfloor>z\<rfloor> < N" by (simp add: floor_less_iff)
  moreover have "round_half_even z \<le> \<lfloor>z\<rfloor> + 1"
    by (simp add: round_half_even_def Let_def)
  ultimately show ?thesis by linarith
qed

lemma powi_below: "e \<le> 52 \<Longrightarrow> (2::rat) powi (e - 52) = 1 / 2 ^ nat (52 - e)"
  by (auto simp: power_int_def field_simps)

lemma floor_log2_upper:
  assumes "0 < a" and "a < 2 ^ n" and "0 < n"
  shows "floor_log2 a \<le> int n - 1"
proof (cases "1 \<le> a")
  case True
  have "\<lfloor>a\<rfloor> < 2 ^ n" using assms(2) by (simp add: floor_less_iff)
  then have "bitlen \<lfloor>a\<rfloor> \<le> int n" by (simp add: bitlen_le_iff_power)
  with True show ?thesis by (simp add: floor_log2_def)
next
  case False
  have "0 \<le> bitlen (\<lceil>1 / a\<rceil> - 1)" by (rule bitlen_nonneg)
  with False assms(3) show ?thesis by (simp add: floor_log2_def)
qed

text \<open>A positive rational below \<open>2 ^ n\<close>, \<open>n \<le> 53\<close>, rounds to a multiple of \<open>1 / 2 ^ k\<close>.\<close>

lemma round_binary64_small:
  assumes "0 < y" and "y < 2 ^ n" and "0 < n" and "n \<le> 53"
  shows "\<exists>k. 53 \<le> n + k \<and>
             round_binary64 y = Finite (of_int (round_half_even (y * 2 ^ k)) / 2 ^ k)"
proof -
  define e where "e = max (floor_log2 y) (- 1022)"
  define k where "k = nat (52 - e)"
  have e_le: "e \<le> int n - 1"
    using floor_log2_upper [OF assms(1,2,3)] by (simp add: e_def)
  then have e52: "e \<le> 52" using assms(4) by simp
  have q: "(2::rat) powi (e - 52) = 1 / 2 ^ k"
    using powi_below [OF e52] by (simp add: k_def)
  have nk: "53 \<le> n + k" using e_le by (simp add: k_def)
  define r where "r = (of_int (round_half_even (y * 2 ^ k)) :: rat) / 2 ^ k"
  define P :: rat where "P = 2 ^ k"
  have P1: "1 \<le> P" by (simp add: P_def)
  have "of_int (round_half_even (y * P)) \<le> y * P + 1 / 2"
    by (rule round_half_even_bounds)
  then have "of_int (round_half_even (y * P)) / P \<le> (y * P + 1 / 2) / P"
    using P1 by (intro divide_right_mono) auto
  also have "\<dots> = y + 1 / 2 / P" using P1 by (simp add: add_divide_distrib)
  finally have "r \<le> y + 1 / 2 / P" by (simp add: r_def P_def)
  also have "\<dots> \<le> y + 1" using P1 by (simp add: field_simps)
  also have "\<dots> < 2 ^ n + 1" using assms(2) by simp
  also have "\<dots> \<le> (2::rat) ^ 53 + 1"
    using assms(4) by (intro add_right_mono power_increasing) auto
  also have "\<dots> < 2 powi 1024" by simp
  finally have small: "\<not> 2 powi 1024 \<le> r" by simp
  have "round_binary64 y = Finite r"
    using assms(1) small q
    by (simp add: round_binary64_def Let_def e_def [symmetric] r_def)
  with nk show ?thesis by (auto simp: r_def)
qed

lemma round_binary64_minus:
  "round_binary64 (- x) =
     (case round_binary64 x of
        Finite r \<Rightarrow> Finite (- r) | PosInf \<Rightarrow> NegInf | NegInf \<Rightarrow> PosInf | NaN \<Rightarrow> NaN)"
  by (auto simp: round_binary64_def Let_def)

lemma round_binary64_of_nat_int:
  assumes "0 < n" and "n < 2 ^ 53"
  shows "round_binary64 (of_int n) = Finite (of_int n)"
proof -
  have "(of_int n :: rat) < 2 ^ 53" using assms(2) by (metis of_int_less_numeral_power_cancel_iff)
  with assms(1) obtain k where
    k: "round_binary64 (of_int n) = Finite (of_int (round_half_even (of_int n * 2 ^ k)) / 2 ^ k)"
    using round_binary64_small [of "of_int n" 53] by auto
  have "(of_int n :: rat) * 2 ^ k = of_int (n * 2 ^ k)" by simp
  then have "round_half_even (of_int n * 2 ^ k) = n * 2 ^ k"
    by (simp only: round_half_even_of_int)
  with k show ?thesis by simp
qed

lemma round_binary64_of_int:
  assumes "\<bar>n\<bar> < 2 ^ 53"
  shows "round_binary64 (of_int n) = Finite (of_int n)"
proof -
  consider "n = 0" | "0 < n" | "n < 0" by linarith
  then show ?thesis
  proof cases
    case 1
    then show ?thesis by (simp add: round_binary64_def)
  next
    case 2
    with assms show ?thesis by (simp add: round_binary64_of_nat_int)
  next
    case 3
    with assms have "round_binary64 (of_int (- n)) = Finite (of_int (- n))"
      by (intro round_binary64_of_nat_int) auto
    then show ?thesis
      using round_binary64_minus [of "of_int (- n)"] by simp
  qed
qed

text \<open>
  A whole number of seconds against the clock: the rounding of the division does not
  change the comparison.
\<close>

lemma double_less_clock:
  assumes "\<bar>n\<bar> < 2 ^ 53" and "0 \<le> t" and "t \<le> 8640000000000000"
  shows "double_less (round_binary64 (of_int n)) (round_binary64 (of_int t / 1000)) =
           (n * 1000 < t)"
proof (cases "t = 0")
  case True
  then show ?thesis
    using assms(1) by (simp add: round_binary64_of_int) (simp add: round_binary64_def)
next
  case False
  define y :: rat where "y = of_int t / 1000"
  have ypos: "0 < y" using False assms(2) by (simp add: y_def)
  have "(of_int t :: rat) \<le> 8640000000000000" using assms(3) by (metis of_int_le_numeral_iff)
  then have "y < 2 ^ 44" by (simp add: y_def)
  with ypos obtain k where k9: "53 \<le> 44 + k"
    and rnd: "round_binary64 y = Finite (of_int (round_half_even (y * 2 ^ k)) / 2 ^ k)"
    using round_binary64_small [of y 44] by auto
  define m where "m = round_half_even (y * 2 ^ k)"
  define P :: rat where "P = 2 ^ k"
  have "(2::rat) ^ 9 \<le> 2 ^ k" using k9 by (intro power_increasing) auto
  then have P512: "512 \<le> P" by (simp add: P_def)
  have m_P: "m = round_half_even (y * P)" by (simp add: m_def P_def)
  have "(of_int n < (of_int m :: rat) / P) = (n * 1000 < t)"
  proof
    assume lt: "n * 1000 < t"
    then have "n * 1000 + 1 \<le> t" by simp
    then have "(of_int (n * 1000 + 1) :: rat) \<le> of_int t" by (simp only: of_int_le_iff)
    then have y_ge: "of_int n + 1 / 1000 \<le> y" by (simp add: y_def)
    have "y * P - 1 / 2 \<le> of_int m" unfolding m_P by (rule round_half_even_bounds)
    then have "(y * P - 1 / 2) / P \<le> of_int m / P"
      using P512 by (intro divide_right_mono) auto
    moreover have "(y * P - 1 / 2) / P = y - 1 / 2 / P"
      using P512 by (simp add: diff_divide_distrib)
    moreover have "1 / 2 / P \<le> 1 / 1024" using P512 by (simp add: field_simps)
    ultimately show "of_int n < (of_int m :: rat) / P" using y_ge by linarith
  next
    assume lt: "of_int n < (of_int m :: rat) / P"
    show "n * 1000 < t"
    proof (rule ccontr)
      assume "\<not> n * 1000 < t"
      then have "t \<le> n * 1000" by simp
      then have "(of_int t :: rat) \<le> of_int (n * 1000)" by (simp only: of_int_le_iff)
      then have "y \<le> of_int n" by (simp add: y_def)
      then have "y * P \<le> of_int n * P" using P512 by (intro mult_right_mono) auto
      also have "of_int n * P = of_int (n * 2 ^ k)" by (simp add: P_def)
      finally have "m \<le> n * 2 ^ k" unfolding m_P by (rule round_half_even_le)
      then have "(of_int m :: rat) \<le> of_int (n * 2 ^ k)" by (simp only: of_int_le_iff)
      also have "(of_int (n * 2 ^ k) :: rat) = of_int n * P" by (simp add: P_def)
      finally have "(of_int m :: rat) / P \<le> of_int n * P / P"
        using P512 by (intro divide_right_mono) auto
      also have "of_int n * P / P = of_int n" using P512 by simp
      finally show False using lt by simp
    qed
  qed
  then show ?thesis
    using assms(1) rnd by (simp add: round_binary64_of_int y_def m_def P_def)
qed

lemma round_binary64_1600000000: "round_binary64 1600000000 = Finite 1600000000"
  using round_binary64_of_int [of 1600000000] by simp

lemma round_binary64_1700000000: "round_binary64 1700000000 = Finite 1700000000"
  using round_binary64_of_int [of 1700000000] by simp

text \<open>
  The literal \<^verbatim>\<open>1700000000.001\<close> and the quotient of 1700000000001 by 1000 are the
  same double.
\<close>

lemma round_binary64_1700000000001:
  "round_binary64 (1700000000001 / 1000) = Finite (3565158400002097 / 2097152)"
  by code_simp

section \<open>Lemmas on the query-string parser and on the state\<close>

lemma truthy_get: "truthy (get ps key) = first_nonempty ps key"
  by (induction ps) (auto simp: truthy_def first_nonempty_def)

lemma first_nonempty_appears: "first_nonempty ps key \<Longrightarrow> appears_nonempty ps key"
  by (induction ps) (auto simp: first_nonempty_def appears_nonempty_def split: if_splits)

lemma hasCodeInUrl_first:
  "hasCodeInUrl loc =
     list_ex (\<lambda>key. first_nonempty (URLSearchParams (search loc)) key \<or>
                    first_nonempty (URLSearchParams (replace_first CHR ''#'' CHR ''?'' (hash loc))) key)
       relevant_params"
  by (auto simp: hasCodeInUrl_def Let_def truthy_get relevant_params_def)

lemma hasCodeInUrl_spec: "hasCodeInUrl loc \<Longrightarrow> spec_returning_from_redirect loc"
  by (auto simp: hasCodeInUrl_first spec_returning_from_redirect_def list_ex_iff
           dest: first_nonempty_appears)

lemma trace_emit: "trace (emit ev w) = trace w @ [ev]"
  and userData_emit: "userData (emit ev w) = userData w"
  and lib_emit: "lib (emit ev w) = lib w"
  by (simp_all add: emit_def)

lemma trace_setUserData: "trace (setUserData u w) = trace w @ [SetUserData u]"
  and userData_setUserData: "userData (setUserData u w) = u"
  and lib_setUserData: "lib (setUserData u w) = lib w"
  by (simp_all add: setUserData_def emit_def)

lemma call_eq: "call ev f w = (fst (f (lib w)), emit ev (w\<lparr>lib := snd (f (lib w))\<rparr>))"
  by (simp add: call_def split: prod.splits)

lemmas world_simps =
  trace_emit userData_emit lib_emit trace_setUserData userData_setUserData lib_setUserData
  call_eq events_since_def

lemmas url_simps =
  hasCodeInUrl_def URLSearchParams_def parse_urlencoded_def parse_pair_def plus_to_space_def
  truthy_def relevant_params_def first_nonempty_def appears_nonempty_def
  spec_returning_from_redirect_def

lemmas example_simps =
  example_user_def example_um_def example_props_def example_world_def
  example_world_signed_in_def example_session_text_def example_JSON_parse_def
  example_platform_def

lemma getUser_effect_callback:
  "(SigninCallback \<in> set (events_since w (snd (getUser_effect props um loc w)))) = hasCodeInUrl loc"
  by (auto simp: getUser_effect_def world_simps Let_def split: sum.splits option.splits prod.splits)

lemma signOutHooks_world:
  "userData (snd (signOutHooks props w)) = None \<and>
   lib (snd (signOutHooks props w)) = lib w \<and>
   trace (snd (signOutHooks props w)) =
     trace w @ SetUserData None # (case onSignOut props of None \<Rightarrow> [] | Some cb \<Rightarrow> [OnSignOut]) \<and>
   fst (signOutHooks props w) = (case onSignOut props of None \<Rightarrow> Inr () | Some cb \<Rightarrow> cb)"
  by (simp add: signOutHooks_def world_simps Let_def split: option.splits)

lemma expired_not_authenticated:
  "(case ud of None \<Rightarrow> False | Some u \<Rightarrow> expired u) \<Longrightarrow> isAuthenticated pf props ud = Inr False"
  by (simp add: isAuthenticated_def)

lemma js_less_than_True:
  "(js_less_than pf v y = Inr True) = (\<exists>x. ToNumber pf v = Inr x \<and> double_less x y)"
  by (auto simp: js_less_than_def split: sum.splits)

section \<open>Lemmas on isAuthenticated\<close>

lemma isAuthenticated_True:
  assumes "\<not> (case ud of None \<Rightarrow> False | Some u \<Rightarrow> expired u)"
  shows "(isAuthenticated pf props ud = Inr True) =
           (\<exists>j x. JSON_parse pf (case getItem pf (storage_key props) of None \<Rightarrow> ''null'' | Some s \<Rightarrow> s) = Inr j \<and>
                  ToNumber pf (expires_at_member j) = Inr x \<and>
                  double_less x (round_binary64 (of_int (getTime pf) / 1000)))"
  using assms by (auto simp: isAuthenticated_def js_less_than_True split: sum.splits)

lemma isAuthenticated_number:
  assumes "\<not> (case ud of None \<Rightarrow> False | Some u \<Rightarrow> expired u)"
    and "getItem pf (storage_key props) = Some s" and "JSON_parse pf s = Inr j"
    and "expires_at_member j = Some (JNum x)"
  shows "isAuthenticated pf props ud =
           Inr (double_less (round_binary64 x) (round_binary64 (of_int (getTime pf) / 1000)))"
  using assms by (simp add: isAuthenticated_def js_less_than_def ToNumber_def)

lemma isAuthenticated_null:
  assumes "\<not> (case ud of None \<Rightarrow> False | Some u \<Rightarrow> expired u)"
    and "JSON_parse pf ''null'' = Inr JNull"
    and "getItem pf (storage_key props) \<in> {None, Some ''null''}"
  shows "isAuthenticated pf props ud = Inr False"
  using assms by (auto simp: isAuthenticated_def js_less_than_def ToNumber_def)

section \<open>The page load\<close>

text \<open>
  C1, as the code has it. The provider takes the \<^verbatim>\<open>signinCallback\<close> branch of its
  page-load effect exactly when \<^verbatim>\<open>hasCodeInUrl\<close> holds of its location, and
  \<^verbatim>\<open>hasCodeInUrl\<close> holds exactly when, for one of the parameters \<^verbatim>\<open>code\<close>,
  \<^verbatim>\<open>id_token\<close> and \<^verbatim>\<open>session_state\<close>, the first pair of that name in the query
  string, or in the fragment parsed after its first \<^verbatim>\<open>#\<close> is replaced by \<^verbatim>\<open>?\<close>,
  has a non-empty value. A later pair of the same name is not looked at.
\<close>

theorem hasCodeInUrl_first_occurrence:
  "hasCodeInUrl loc =
     list_ex (\<lambda>key. first_nonempty (URLSearchParams (search loc)) key \<or>
                    first_nonempty (URLSearchParams (replace_first CHR ''#'' CHR ''?'' (hash loc))) key)
       relevant_params \<and>
   (SigninCallback \<in> set (events_since w (snd (AuthProvider_getUser window_location new_UserManager props w)))) =
     hasCodeInUrl (case location props of None \<Rightarrow> window_location | Some l \<Rightarrow> l)"
  using hasCodeInUrl_first getUser_effect_callback by (simp add: AuthProvider_getUser_def)

text \<open>
  At \<^verbatim>\<open>#id_token=xyz&state=1\<close> the provider, given no \<^verbatim>\<open>location\<close> prop, reads
  \<^verbatim>\<open>window.location\<close> and calls \<^verbatim>\<open>signinCallback\<close>.
\<close>

theorem hasCodeInUrl_first_occurrence_witness:
  "hasCodeInUrl \<lparr>search = '''', hash = ''#id_token=xyz&state=1''\<rparr> \<and>
   SigninCallback \<in> set (events_since example_world
     (snd (AuthProvider_getUser \<lparr>search = '''', hash = ''#id_token=xyz&state=1''\<rparr>
             (\<lambda>s. example_um) example_props example_world)))"
  using hasCodeInUrl_first_occurrence
          [of "\<lparr>search = '''', hash = ''#id_token=xyz&state=1''\<rparr>" example_world
              "\<lparr>search = '''', hash = ''#id_token=xyz&state=1''\<rparr>" "\<lambda>s. example_um" example_props]
  by (simp add: url_simps example_props_def)

text \<open>
  C1, as the claim words it, fails at \<^verbatim>\<open>?code=&code=abc\<close>: the parameter
  \<^verbatim>\<open>code\<close> appears with the non-empty value \<^verbatim>\<open>abc\<close>, but \<^verbatim>\<open>get\<close> returns the
  value of its first pair, which is empty.
\<close>

theorem hasCodeInUrl_duplicate_counterexample:
  "\<not> hasCodeInUrl \<lparr>search = ''?code=&code=abc'', hash = ''''\<rparr> \<and>
   spec_returning_from_redirect \<lparr>search = ''?code=&code=abc'', hash = ''''\<rparr>"
  by (simp add: url_simps)

text \<open>
  C3. When \<^verbatim>\<open>hasCodeInUrl\<close> holds and \<^verbatim>\<open>signinCallback()\<close> resolves with a user
  \<open>u\<close>, whatever its fields are, the effect calls \<^verbatim>\<open>signinCallback\<close>, sets
  \<^verbatim>\<open>userData\<close> to \<open>u\<close> itself and then invokes \<^verbatim>\<open>onSignIn\<close>, when provided, with
  \<open>u\<close>; it does nothing else, and settles as that callback does.
\<close>

theorem getUser_effect_signinCallback:
  assumes "hasCodeInUrl loc" and "signinCallback um (lib w) = (Inr u, m)"
  shows "userData (snd (getUser_effect props um loc w)) = Some u \<and>
         lib (snd (getUser_effect props um loc w)) = m \<and>
         events_since w (snd (getUser_effect props um loc w)) =
           [SigninCallback, SetUserData (Some u)] @
           (case onSignIn props of None \<Rightarrow> [] | Some cb \<Rightarrow> [OnSignIn u]) \<and>
         fst (getUser_effect props um loc w) =
           (case onSignIn props of None \<Rightarrow> Inr () | Some cb \<Rightarrow> cb u)"
  using assms
  by (simp add: getUser_effect_def world_simps Let_def split: option.splits)

theorem getUser_effect_signinCallback_witness:
  "hasCodeInUrl \<lparr>search = ''?code=abc&state=xyz'', hash = ''''\<rparr> \<and>
   signinCallback example_um (lib example_world) = (Inr example_user, (Some example_user, [])) \<and>
   userData (snd (getUser_effect example_props example_um
                    \<lparr>search = ''?code=abc&state=xyz'', hash = ''''\<rparr> example_world)) =
     Some example_user \<and>
   events_since example_world
     (snd (getUser_effect example_props example_um
             \<lparr>search = ''?code=abc&state=xyz'', hash = ''''\<rparr> example_world)) =
     [SigninCallback, SetUserData (Some example_user), OnSignIn example_user]"
  using getUser_effect_signinCallback
          [of "\<lparr>search = ''?code=abc&state=xyz'', hash = ''''\<rparr>" example_um example_world
              example_user "(Some example_user, [])" example_props]
  by (simp add: url_simps example_um_def example_props_def example_world_def)

text \<open>
  C4, as the code has it. On a page load that is not a redirect return the provider
  calls \<^verbatim>\<open>getUser()\<close>. If that resolves with \<^verbatim>\<open>null\<close> or an expired user and
  \<^verbatim>\<open>autoSignIn\<close> is true (its default), the provider invokes \<^verbatim>\<open>onBeforeSignIn\<close>
  (when provided) and, unless that callback throws, then \<^verbatim>\<open>signinRedirect()\<close>, and
  leaves \<^verbatim>\<open>userData\<close> as it was. In every other case it sets \<^verbatim>\<open>userData\<close> to the
  user \<^verbatim>\<open>getUser()\<close> resolved with.
\<close>

theorem getUser_effect_autoSignIn:
  assumes "\<not> hasCodeInUrl loc" and "getUser um (lib w) = (Inr r, m)"
  shows "(case getUser_effect props um loc w of (res, w') \<Rightarrow>
           if (case r of None \<Rightarrow> True | Some u \<Rightarrow> expired u) \<and>
              (case autoSignIn props of None \<Rightarrow> True | Some b \<Rightarrow> b)
           then userData w' = userData w \<and>
                events_since w w' =
                  GetUser #
                  (case onBeforeSignIn props of
                     None \<Rightarrow> [SigninRedirect None]
                   | Some (Inr x) \<Rightarrow> [OnBeforeSignIn, SigninRedirect None]
                   | Some (Inl e) \<Rightarrow> [OnBeforeSignIn])
           else userData w' = r \<and> events_since w w' = [GetUser, SetUserData r] \<and> res = Inr ())"
  using assms
  by (simp add: getUser_effect_def world_simps Let_def split: option.splits sum.splits)

text \<open>
  The first load, with no session and the default \<^verbatim>\<open>autoSignIn\<close>, and a load with a
  session that has not expired.
\<close>

theorem getUser_effect_autoSignIn_witness:
  "\<not> hasCodeInUrl \<lparr>search = ''?page=2'', hash = ''''\<rparr> \<and>
   getUser example_um (lib example_world) = (Inr None, (None, [])) \<and>
   userData (snd (getUser_effect example_props example_um
                    \<lparr>search = ''?page=2'', hash = ''''\<rparr> example_world)) = None \<and>
   events_since example_world
     (snd (getUser_effect example_props example_um
             \<lparr>search = ''?page=2'', hash = ''''\<rparr> example_world)) =
     [GetUser, OnBeforeSignIn, SigninRedirect None] \<and>
   getUser example_um (lib (example_world_signed_in\<lparr>userData := None\<rparr>)) =
     (Inr (Some example_user), (Some example_user, [])) \<and>
   userData (snd (getUser_effect example_props example_um
                    \<lparr>search = ''?page=2'', hash = ''''\<rparr>
                    (example_world_signed_in\<lparr>userData := None\<rparr>))) = Some example_user"
  using getUser_effect_autoSignIn
          [of "\<lparr>search = ''?page=2'', hash = ''''\<rparr>" example_um example_world
              None "(None, [])" example_props]
        getUser_effect_autoSignIn
          [of "\<lparr>search = ''?page=2'', hash = ''''\<rparr>" example_um
              "example_world_signed_in\<lparr>userData := None\<rparr>"
              "Some example_user" "(Some example_user, [])" example_props]
  by (simp add: url_simps example_simps split: prod.splits)

text \<open>
  C4, as the claim words it, fails when \<^verbatim>\<open>onBeforeSignIn\<close> throws: no location
  parameter, no session, the default \<^verbatim>\<open>autoSignIn\<close>, and \<^verbatim>\<open>signinRedirect\<close> is
  never called.
\<close>

theorem getUser_effect_onBeforeSignIn_counterexample:
  "\<not> hasCodeInUrl \<lparr>search = '''', hash = ''''\<rparr> \<and>
   getUser example_um (lib example_world) = (Inr None, (None, [])) \<and>
   autoSignIn (example_props\<lparr>onBeforeSignIn := Some (Inl ''thrown'')\<rparr>) = None \<and>
   trace (snd (getUser_effect (example_props\<lparr>onBeforeSignIn := Some (Inl ''thrown'')\<rparr>)
                 example_um \<lparr>search = '''', hash = ''''\<rparr> example_world)) =
     [GetUser, OnBeforeSignIn] \<and>
   SigninRedirect None \<notin>
     set (trace (snd (getUser_effect (example_props\<lparr>onBeforeSignIn := Some (Inl ''thrown'')\<rparr>)
                        example_um \<lparr>search = '''', hash = ''''\<rparr> example_world)))"
  by (simp add: url_simps example_simps getUser_effect_def world_simps)

section \<open>The actions of the context value\<close>

text \<open>
  C5. For every argument \<open>args\<close>, \<^verbatim>\<open>login(args)\<close> is the one call
  \<^verbatim>\<open>userManager.signinRedirect(args)\<close>: it settles as that call does, the library's
  state is what that call leaves, and \<^verbatim>\<open>userData\<close> is not changed.
\<close>

theorem login_delegates:
  "login um args w =
     (fst (signinRedirect um args (lib w)),
      w\<lparr>lib := snd (signinRedirect um args (lib w)), trace := trace w @ [SigninRedirect args]\<rparr>) \<and>
   userData (snd (login um args w)) = userData w \<and>
   events_since w (snd (login um args w)) = [SigninRedirect args]"
  by (simp add: login_def world_simps emit_def)

theorem login_delegates_witness:
  "login example_um (Some ''prompt=login'') example_world =
     (Inr (), \<lparr>lib = (None, []), userData = None, trace = [SigninRedirect (Some ''prompt=login'')]\<rparr>)"
  using login_delegates [of example_um "Some ''prompt=login''" example_world]
  by (simp add: example_um_def example_world_def)

text \<open>
  C6. When \<^verbatim>\<open>logout()\<close> resolves, \<^verbatim>\<open>userData\<close> is \<^verbatim>\<open>null\<close> and what happened is,
  in this order: \<^verbatim>\<open>removeUser()\<close> was called and resolved, \<^verbatim>\<open>userData\<close> was set to
  \<^verbatim>\<open>null\<close>, and \<^verbatim>\<open>onSignOut\<close>, when provided, was invoked, once. The same holds of
  \<^verbatim>\<open>signOutRedirect(args)\<close> with \<^verbatim>\<open>signoutRedirect(args)\<close> for \<^verbatim>\<open>removeUser()\<close>.
\<close>

theorem logout_signOutRedirect_resolved:
  "(logout props um w = (Inr (), w') \<longrightarrow>
      userData w' = None \<and>
      events_since w w' =
        [RemoveUser, SetUserData None] @ (case onSignOut props of None \<Rightarrow> [] | Some cb \<Rightarrow> [OnSignOut]) \<and>
      count_list (events_since w w') OnSignOut = (case onSignOut props of None \<Rightarrow> 0 | Some cb \<Rightarrow> 1) \<and>
      fst (removeUser um (lib w)) = Inr ()) \<and>
   (signOutRedirect props um args w = (Inr (), w') \<longrightarrow>
      userData w' = None \<and>
      events_since w w' =
        [SignoutRedirect args, SetUserData None] @
        (case onSignOut props of None \<Rightarrow> [] | Some cb \<Rightarrow> [OnSignOut]) \<and>
      count_list (events_since w w') OnSignOut = (case onSignOut props of None \<Rightarrow> 0 | Some cb \<Rightarrow> 1) \<and>
      fst (signoutRedirect um args (lib w)) = Inr ())"
  using signOutHooks_world [of props "emit RemoveUser (w\<lparr>lib := snd (removeUser um (lib w))\<rparr>)"]
        signOutHooks_world
          [of props "emit (SignoutRedirect args) (w\<lparr>lib := snd (signoutRedirect um args (lib w))\<rparr>)"]
  by (auto simp: logout_def signOutRedirect_def world_simps split: sum.splits option.splits prod.splits)

theorem logout_signOutRedirect_resolved_witness:
  "logout example_props example_um example_world_signed_in =
     (Inr (), \<lparr>lib = (None, []), userData = None,
               trace = [RemoveUser, SetUserData None, OnSignOut]\<rparr>) \<and>
   signOutRedirect example_props example_um None example_world_signed_in =
     (Inr (), \<lparr>lib = (Some example_user, []), userData = None,
               trace = [SignoutRedirect None, SetUserData None, OnSignOut]\<rparr>) \<and>
   count_list [RemoveUser, SetUserData None, OnSignOut :: string event] OnSignOut = 1"
  using logout_signOutRedirect_resolved
          [of example_props example_um example_world_signed_in
              "\<lparr>lib = (None, []), userData = None, trace = [RemoveUser, SetUserData None, OnSignOut]\<rparr>"
              None]
        logout_signOutRedirect_resolved
          [of example_props example_um example_world_signed_in
              "\<lparr>lib = (Some example_user, []), userData = None,
                trace = [SignoutRedirect None, SetUserData None, OnSignOut]\<rparr>"
              None]
  by (simp add: logout_def signOutRedirect_def signOutHooks_def world_simps emit_def Let_def
                example_um_def example_props_def example_world_signed_in_def)

section \<open>The subscription to the library's userLoaded event\<close>

text \<open>
  C7. Mounting registers one handler on \<^verbatim>\<open>userLoaded\<close> and touches nothing else;
  the cleanup that React runs on unmount removes that very handler; and each time the
  handler runs, with \<^verbatim>\<open>getUser()\<close> resolving with \<open>r\<close> at that time, it calls
  \<^verbatim>\<open>getUser()\<close> and sets \<^verbatim>\<open>userData\<close> to \<open>r\<close>.
\<close>

theorem userLoaded_effect_subscription:
  "(case userLoaded_effect n um w of (w1, cleanup) \<Rightarrow>
      events_since w w1 = [AddUserLoaded (UpdateUserData n)] \<and>
      lib w1 = addUserLoaded um (UpdateUserData n) (lib w) \<and>
      userData w1 = userData w \<and>
      events_since wu (cleanup wu) = [RemoveUserLoaded (UpdateUserData n)] \<and>
      lib (cleanup wu) = removeUserLoaded um (UpdateUserData n) (lib wu) \<and>
      userData (cleanup wu) = userData wu) \<and>
   (getUser um (lib we) = (Inr r, m) \<longrightarrow>
      userData (snd (run_handler um (UpdateUserData n) we)) = r \<and>
      events_since we (snd (run_handler um (UpdateUserData n) we)) = [GetUser, SetUserData r])"
  by (simp add: userLoaded_effect_def updateUserData_def world_simps Let_def)

text \<open>
  Mount, a \<^verbatim>\<open>userLoaded\<close> event after the library stored a session, unmount: the
  handler list of the library is empty again.
\<close>

theorem userLoaded_effect_subscription_witness:
  "lib (fst (userLoaded_effect 0 example_um example_world)) = (None, [UpdateUserData 0]) \<and>
   getUser example_um (Some example_user, [UpdateUserData 0]) =
     (Inr (Some example_user), (Some example_user, [UpdateUserData 0])) \<and>
   userData (snd (run_handler example_um (UpdateUserData 0)
                    (example_world\<lparr>lib := (Some example_user, [UpdateUserData 0])\<rparr>))) =
     Some example_user \<and>
   lib (snd (userLoaded_effect 0 example_um example_world)
          (example_world\<lparr>lib := (Some example_user, [UpdateUserData 0])\<rparr>)) =
     (Some example_user, [])"
  using userLoaded_effect_subscription
          [where n = 0 and um = example_um and w = example_world
             and wu = "example_world\<lparr>lib := (Some example_user, [UpdateUserData 0])\<rparr>"
             and we = "example_world\<lparr>lib := (Some example_user, [UpdateUserData 0])\<rparr>"
             and r = "Some example_user" and m = "(Some example_user, [UpdateUserData 0])"]
  by (simp add: example_um_def example_world_def split: prod.splits)

section \<open>isAuthenticated and the context value\<close>

text \<open>
  C8. When \<^verbatim>\<open>userData\<close> is an expired user, \<^verbatim>\<open>isAuthenticated\<close> is false. When
  \<^verbatim>\<open>userData\<close> is \<^verbatim>\<open>null\<close> or not expired, \<^verbatim>\<open>isAuthenticated\<close> is true exactly
  when the text stored in \<^verbatim>\<open>localStorage\<close> under the key
  \<^verbatim>\<open>oidc.user:{authority}:{clientId}\<close> parses as JSON to a value whose
  \<^verbatim>\<open>expires_at\<close>, as a number, is strictly less than the current time in seconds,
  which is the double that dividing the clock's milliseconds by 1000 gives. A stored
  numeric \<^verbatim>\<open>expires_at\<close> gives just that comparison of doubles; for a stored whole
  number of seconds it is the exact comparison with the clock, so an expiry in the past
  gives true; and a missing entry or a stored \<^verbatim>\<open>null\<close> gives false.
\<close>

theorem isAuthenticated_characterisation:
  "((case ud of None \<Rightarrow> False | Some u \<Rightarrow> expired u) \<longrightarrow> isAuthenticated pf props ud = Inr False) \<and>
   (\<not> (case ud of None \<Rightarrow> False | Some u \<Rightarrow> expired u) \<longrightarrow>
      ((isAuthenticated pf props ud = Inr True) =
         (\<exists>j x. JSON_parse pf (case getItem pf (storage_key props) of None \<Rightarrow> ''null'' | Some s \<Rightarrow> s) = Inr j \<and>
                ToNumber pf (expires_at_member j) = Inr x \<and>
                double_less x (round_binary64 (of_int (getTime pf) / 1000)))) \<and>
      (\<forall>s j x.
         getItem pf (storage_key props) = Some s \<and> JSON_parse pf s = Inr j \<and>
         expires_at_member j = Some (JNum x) \<longrightarrow>
         isAuthenticated pf props ud =
           Inr (double_less (round_binary64 x) (round_binary64 (of_int (getTime pf) / 1000)))) \<and>
      (\<forall>s j n.
         getItem pf (storage_key props) = Some s \<and> JSON_parse pf s = Inr j \<and>
         expires_at_member j = Some (JNum (of_int n)) \<and> \<bar>n\<bar> < 2 ^ 53 \<and>
         0 \<le> getTime pf \<and> getTime pf \<le> 8640000000000000 \<longrightarrow>
         isAuthenticated pf props ud = Inr (n * 1000 < getTime pf)) \<and>
      (JSON_parse pf ''null'' = Inr JNull \<and>
       getItem pf (storage_key props) \<in> {None, Some ''null''} \<longrightarrow>
         isAuthenticated pf props ud = Inr False)) \<and>
   (\<forall>a c. authority props = Some a \<and> clientId props = Some c \<longrightarrow>
      storage_key props = ''oidc.user:'' @ a @ '':'' @ c)"
proof (intro conjI impI allI)
  assume "case ud of None \<Rightarrow> False | Some u \<Rightarrow> expired u"
  then show "isAuthenticated pf props ud = Inr False" by (rule expired_not_authenticated)
next
  assume "\<not> (case ud of None \<Rightarrow> False | Some u \<Rightarrow> expired u)"
  then show "(isAuthenticated pf props ud = Inr True) =
         (\<exists>j x. JSON_parse pf (case getItem pf (storage_key props) of None \<Rightarrow> ''null'' | Some s \<Rightarrow> s) = Inr j \<and>
                ToNumber pf (expires_at_member j) = Inr x \<and>
                double_less x (round_binary64 (of_int (getTime pf) / 1000)))"
    by (rule isAuthenticated_True)
next
  fix s j x
  assume "\<not> (case ud of None \<Rightarrow> False | Some u \<Rightarrow> expired u)"
    and "getItem pf (storage_key props) = Some s \<and> JSON_parse pf s = Inr j \<and>
         expires_at_member j = Some (JNum x)"
  then show "isAuthenticated pf props ud =
           Inr (double_less (round_binary64 x) (round_binary64 (of_int (getTime pf) / 1000)))"
    by (simp add: isAuthenticated_number)
next
  fix s j n
  assume live: "\<not> (case ud of None \<Rightarrow> False | Some u \<Rightarrow> expired u)"
    and stored: "getItem pf (storage_key props) = Some s \<and> JSON_parse pf s = Inr j \<and>
         expires_at_member j = Some (JNum (of_int n)) \<and> \<bar>n\<bar> < 2 ^ 53 \<and>
         0 \<le> getTime pf \<and> getTime pf \<le> 8640000000000000"
  from live stored have "isAuthenticated pf props ud =
      Inr (double_less (round_binary64 (of_int n)) (round_binary64 (of_int (getTime pf) / 1000)))"
    by (intro isAuthenticated_number) auto
  with stored show "isAuthenticated pf props ud = Inr (n * 1000 < getTime pf)"
    by (simp add: double_less_clock)
next
  assume "\<not> (case ud of None \<Rightarrow> False | Some u \<Rightarrow> expired u)"
    and "JSON_parse pf ''null'' = Inr JNull \<and>
       getItem pf (storage_key props) \<in> {None, Some ''null''}"
  then show "isAuthenticated pf props ud = Inr False"
    by (intro isAuthenticated_null) auto
next
  fix a c
  assume "authority props = Some a \<and> clientId props = Some c"
  then show "storage_key props = ''oidc.user:'' @ a @ '':'' @ c"
    by (simp add: storage_key_def template_text_def)
qed

text \<open>
  At 1700000000 s, with a session stored that expired at 1600000000 s:
  \<^verbatim>\<open>isAuthenticated\<close> is true without a user in the state, false with an expired user
  in the state, and false once the entry is gone. And one millisecond later, with
  \<^verbatim>\<open>1700000000.001\<close> stored: the two doubles are equal and \<^verbatim>\<open>isAuthenticated\<close> is
  false.
\<close>

theorem isAuthenticated_characterisation_witness:
  "storage_key example_props = ''oidc.user:https://idp.example:app'' \<and>
   isAuthenticated example_platform example_props None = Inr True \<and>
   isAuthenticated example_platform example_props (Some (example_user\<lparr>expired := True\<rparr>)) = Inr False \<and>
   isAuthenticated (example_platform\<lparr>getItem := (\<lambda>key. None)\<rparr>) example_props None = Inr False \<and>
   isAuthenticated
     (example_platform
        \<lparr>JSON_parse := (\<lambda>s. Inr (JObj [(''expires_at'', JNum (1700000000001 / 1000))])),
         getTime := 1700000000001\<rparr>)
     example_props None = Inr False"
proof -
  let ?later = "example_platform
        \<lparr>JSON_parse := (\<lambda>s. Inr (JObj [(''expires_at'', JNum (1700000000001 / 1000))])),
         getTime := 1700000000001\<rparr>"
  have key: "storage_key example_props = ''oidc.user:https://idp.example:app''"
    by (simp add: storage_key_def template_text_def example_props_def)
  have stored: "getItem example_platform (storage_key example_props) = Some example_session_text"
    by (simp add: key example_platform_def)
  have parsed: "JSON_parse example_platform example_session_text =
                  Inr (JObj [(''expires_at'', JNum (of_int 1600000000))])"
    by (simp add: example_platform_def example_JSON_parse_def example_session_text_def)
  have now: "getTime example_platform = 1700000000000"
    by (simp add: example_platform_def)
  have null: "JSON_parse (example_platform\<lparr>getItem := (\<lambda>key. None)\<rparr>) ''null'' = Inr JNull"
    by (simp add: example_platform_def example_JSON_parse_def)
  have later: "getItem ?later (storage_key example_props) = Some example_session_text"
    "JSON_parse ?later example_session_text =
       Inr (JObj [(''expires_at'', JNum (1700000000001 / 1000))])"
    "getTime ?later = 1700000000001"
    by (simp_all add: key example_platform_def)
  have past: "isAuthenticated example_platform example_props None = Inr True"
    using stored parsed now
    by (simp add: isAuthenticated_def js_less_than_def ToNumber_def
                  round_binary64_1600000000 round_binary64_1700000000)
  have gone: "isAuthenticated (example_platform\<lparr>getItem := (\<lambda>key. None)\<rparr>) example_props None = Inr False"
    using null by (simp add: isAuthenticated_def js_less_than_def ToNumber_def)
  have equal: "isAuthenticated ?later example_props None = Inr False"
    using later
    by (simp add: isAuthenticated_def js_less_than_def ToNumber_def round_binary64_1700000000001)
  show ?thesis
    using isAuthenticated_characterisation [of None example_platform example_props]
          isAuthenticated_characterisation
            [of "Some (example_user\<lparr>expired := True\<rparr>)" example_platform example_props]
          key past gone equal
    by simp
qed

text \<open>
  C9. \<^verbatim>\<open>initUserManager(props)\<close> is \<^verbatim>\<open>props.userManager\<close> itself when that is
  provided. Otherwise it is a new \<^verbatim>\<open>UserManager\<close> whose settings have
  \<^verbatim>\<open>response_type\<close> \<^verbatim>\<open>code\<close> when \<^verbatim>\<open>responseType\<close> is absent, \<^verbatim>\<open>scope\<close>
  \<^verbatim>\<open>openid\<close> when \<^verbatim>\<open>scope\<close> is absent, \<^verbatim>\<open>loadUserInfo\<close> true, and
  \<^verbatim>\<open>props.redirectUri\<close> as each of the three redirect URIs.
\<close>

theorem initUserManager_settings:
  "(\<forall>um. userManager props = Some um \<longrightarrow> initUserManager new_UserManager props = um) \<and>
   (userManager props = None \<longrightarrow>
      (\<exists>s. initUserManager new_UserManager props = new_UserManager s \<and>
           (responseType props = None \<longrightarrow> response_type s = ''code'') \<and>
           (scope props = None \<longrightarrow> scope' s = ''openid'') \<and>
           response_type s = or_default (responseType props) ''code'' \<and>
           scope' s = or_default (scope props) ''openid'' \<and>
           loadUserInfo s \<and>
           redirect_uri s = redirectUri props \<and>
           silent_redirect_uri s = redirectUri props \<and>
           post_logout_redirect_uri s = redirectUri props \<and>
           authority' s = authority props \<and>
           client_id s = clientId props \<and>
           client_secret s = clientSecret props \<and>
           automaticSilentRenew' s = automaticSilentRenew props))"
  by (auto simp: initUserManager_def or_default_def)

text \<open>
  With a manager in the props, and without one; the constructor of the second case
  keeps of the settings what this library's \<^verbatim>\<open>signinRedirect\<close> would send.
\<close>

theorem initUserManager_settings_witness:
  "userManager example_props = Some example_um \<and>
   initUserManager (\<lambda>s. example_um) example_props = example_um \<and>
   userManager (example_props\<lparr>userManager := None\<rparr>) = None \<and>
   responseType (example_props\<lparr>userManager := None\<rparr>) = None \<and>
   scope (example_props\<lparr>userManager := None\<rparr>) = None \<and>
   signinRedirect
     (initUserManager
        (\<lambda>s. example_um\<lparr>signinRedirect :=
                (\<lambda>args m. (Inl (response_type s @ '' '' @ scope' s @ '' '' @
                                  (case redirect_uri s of None \<Rightarrow> '''' | Some uri \<Rightarrow> uri)), m))\<rparr>)
        (example_props\<lparr>userManager := None\<rparr>))
     None (None, []) =
     (Inl ''code openid https://app.example/'', (None, []))"
  using initUserManager_settings [of example_props "\<lambda>s. example_um"]
        initUserManager_settings
          [of "example_props\<lparr>userManager := None\<rparr>"
              "\<lambda>s. example_um\<lparr>signinRedirect :=
                 (\<lambda>args m. (Inl (response_type s @ '' '' @ scope' s @ '' '' @
                                   (case redirect_uri s of None \<Rightarrow> '''' | Some uri \<Rightarrow> uri)), m))\<rparr>"]
  by (simp add: initUserManager_def or_default_def example_props_def)

text \<open>
  C2, as the code has it. The shim has no storage engine of its own, but it reads the
  library's persisted session. For any two contents of \<^verbatim>\<open>localStorage\<close>, the context
  values computed from the same \<^verbatim>\<open>userData\<close> agree in \<^verbatim>\<open>userManager\<close>,
  \<^verbatim>\<open>userData\<close>, \<^verbatim>\<open>user\<close> and \<^verbatim>\<open>method\<close>; they agree in \<^verbatim>\<open>isAuthenticated\<close>
  too, which is then false, when \<^verbatim>\<open>userData\<close> is an expired user. Otherwise
  \<^verbatim>\<open>isAuthenticated\<close> is computed from what is stored under the key (C8).
\<close>

theorem contextValue_localStorage:
  "(contextValue pf new_UserManager props ud = Inr c1 \<and>
    contextValue (pf\<lparr>getItem := store\<rparr>) new_UserManager props ud = Inr c2 \<longrightarrow>
      userManager' c1 = userManager' c2 \<and> userData' c1 = userData' c2 \<and> user' c1 = user' c2 \<and>
      method' c1 = method' c2) \<and>
   ((case ud of None \<Rightarrow> False | Some u \<Rightarrow> expired u) \<longrightarrow>
      contextValue (pf\<lparr>getItem := store\<rparr>) new_UserManager props ud =
        contextValue pf new_UserManager props ud \<and>
      map_sum id isAuthenticated' (contextValue pf new_UserManager props ud) = Inr False)"
  by (auto simp: contextValue_def expired_not_authenticated split: sum.splits)

theorem contextValue_localStorage_witness:
  "contextValue example_platform (\<lambda>s. example_um) example_props None =
     Inr \<lparr>userManager' = example_um, userData' = None,
          user' = \<lparr>id' = None, avatar = None, email' = None, name' = None\<rparr>,
          isAuthenticated' = True, method' = ''OIDC''\<rparr> \<and>
   contextValue (example_platform\<lparr>getItem := (\<lambda>key. None)\<rparr>) (\<lambda>s. example_um) example_props None =
     Inr \<lparr>userManager' = example_um, userData' = None,
          user' = \<lparr>id' = None, avatar = None, email' = None, name' = None\<rparr>,
          isAuthenticated' = False, method' = ''OIDC''\<rparr> \<and>
   expired (example_user\<lparr>expired := True\<rparr>) \<and>
   contextValue (example_platform\<lparr>getItem := (\<lambda>key. None)\<rparr>) (\<lambda>s. example_um) example_props
       (Some (example_user\<lparr>expired := True\<rparr>)) =
     contextValue example_platform (\<lambda>s. example_um) example_props
       (Some (example_user\<lparr>expired := True\<rparr>))"
  using contextValue_localStorage
          [where pf = example_platform and new_UserManager = "\<lambda>s. example_um"
             and props = example_props and ud = None and store = "\<lambda>key. None"
             and ?c1.0 = "\<lparr>userManager' = example_um, userData' = None,
                   user' = \<lparr>id' = None, avatar = None, email' = None, name' = None\<rparr>,
                   isAuthenticated' = True, method' = ''OIDC''\<rparr>"
             and ?c2.0 = "\<lparr>userManager' = example_um, userData' = None,
                   user' = \<lparr>id' = None, avatar = None, email' = None, name' = None\<rparr>,
                   isAuthenticated' = False, method' = ''OIDC''\<rparr>"]
        contextValue_localStorage
          [where pf = example_platform and new_UserManager = "\<lambda>s. example_um"
             and props = example_props and ud = "Some (example_user\<lparr>expired := True\<rparr>)"
             and store = "\<lambda>key. None"]
  by (simp add: contextValue_def isAuthenticated_def js_less_than_def ToNumber_def storage_key_def
                template_text_def initUserManager_def profile_field_def example_simps
                round_binary64_1600000000 round_binary64_1700000000)

text \<open>
  C2, as the claim words it, fails: with no user in the state, the same props and the
  same clock, \<^verbatim>\<open>isAuthenticated\<close> is true when the store holds a session that expired
  and false when the store is empty.
\<close>

theorem contextValue_localStorage_counterexample:
  "map_sum id isAuthenticated'
     (contextValue example_platform (\<lambda>s. example_um) example_props None) = Inr True \<and>
   map_sum id isAuthenticated'
     (contextValue (example_platform\<lparr>getItem := (\<lambda>key. None)\<rparr>) (\<lambda>s. example_um) example_props None) =
     Inr False"
  by (simp add: contextValue_def isAuthenticated_def js_less_than_def ToNumber_def storage_key_def
                template_text_def example_simps round_binary64_1600000000 round_binary64_1700000000)

section \<open>What a throwing callback and an empty parameter cannot do\<close>

text \<open>
  C10. Whatever the location and the callbacks are: when \<^verbatim>\<open>removeUser()\<close> has
  resolved, \<^verbatim>\<open>logout\<close> sets \<^verbatim>\<open>userData\<close> to \<^verbatim>\<open>null\<close> and only then invokes
  \<^verbatim>\<open>onSignOut\<close>, and \<^verbatim>\<open>logout\<close> settles as that callback does, so
  \<^verbatim>\<open>userData\<close> is \<^verbatim>\<open>null\<close> also when the callback throws; \<^verbatim>\<open>onSignOut\<close> is
  never invoked without \<^verbatim>\<open>userData\<close> having been set to \<^verbatim>\<open>null\<close> just before. And
  when no relevant parameter has a non-empty value in the query string or the fragment,
  as in \<^verbatim>\<open>?code=\<close>, \<^verbatim>\<open>hasCodeInUrl\<close> is false and the page-load effect does not
  call \<^verbatim>\<open>signinCallback\<close>.
\<close>

theorem logout_clears_before_onSignOut:
  "(fst (removeUser um (lib w)) = Inr () \<longrightarrow>
      userData (snd (logout props um w)) = None \<and>
      events_since w (snd (logout props um w)) =
        [RemoveUser, SetUserData None] @ (case onSignOut props of None \<Rightarrow> [] | Some cb \<Rightarrow> [OnSignOut]) \<and>
      fst (logout props um w) = (case onSignOut props of None \<Rightarrow> Inr () | Some cb \<Rightarrow> cb)) \<and>
   (OnSignOut \<in> set (events_since w (snd (logout props um w))) \<longrightarrow>
      userData (snd (logout props um w)) = None \<and>
      (\<exists>pre. events_since w (snd (logout props um w)) = pre @ [SetUserData None, OnSignOut])) \<and>
   (\<not> spec_returning_from_redirect loc \<longrightarrow>
      \<not> hasCodeInUrl loc \<and>
      SigninCallback \<notin> set (events_since w (snd (getUser_effect props um loc w))))"
  using signOutHooks_world [of props "emit RemoveUser (w\<lparr>lib := snd (removeUser um (lib w))\<rparr>)"]
        hasCodeInUrl_spec [of loc] getUser_effect_callback [of w props um loc]
  by (auto simp: logout_def world_simps split: sum.splits option.splits prod.splits)

text \<open>A throwing \<^verbatim>\<open>onSignOut\<close>, and the location \<^verbatim>\<open>?code=\<close>.\<close>

theorem logout_clears_before_onSignOut_witness:
  "fst (removeUser example_um (lib example_world_signed_in)) = Inr () \<and>
   logout (example_props\<lparr>onSignOut := Some (Inl ''thrown'')\<rparr>) example_um example_world_signed_in =
     (Inl ''thrown'', \<lparr>lib = (None, []), userData = None,
                       trace = [RemoveUser, SetUserData None, OnSignOut]\<rparr>) \<and>
   \<not> spec_returning_from_redirect \<lparr>search = ''?code='', hash = ''''\<rparr> \<and>
   \<not> hasCodeInUrl \<lparr>search = ''?code='', hash = ''''\<rparr> \<and>
   SigninCallback \<notin>
     set (events_since example_world_signed_in
            (snd (getUser_effect (example_props\<lparr>onSignOut := Some (Inl ''thrown'')\<rparr>) example_um
                    \<lparr>search = ''?code='', hash = ''''\<rparr> example_world_signed_in)))"
  using logout_clears_before_onSignOut
          [of example_um example_world_signed_in
              "example_props\<lparr>onSignOut := Some (Inl ''thrown'')\<rparr>"
              "\<lparr>search = ''?code='', hash = ''''\<rparr>"]
  by (simp add: url_simps logout_def signOutHooks_def world_simps emit_def Let_def
                example_um_def example_props_def example_world_signed_in_def)

end
